theory Spec2Isabelle
  imports Complex_Main "HOL-Library.Char_ord" "HOL-Library.List_Lexorder"
begin

section \<open>NOSTR-Dojo relay: events, tags and addresses (relay/src/types.ts, crypto.ts)\<close>

text \<open>
  JavaScript strings are modelled as \<open>string\<close> (lists of characters, one per code unit,
  which covers the strings whose code units are below 256);
  the numbers the relay handles (timestamps, kinds) as \<open>int\<close>: the integers that are
  Number values, \<open>parseInt\<close> rounding what it reads to the nearest of them. A value that may be
  \<open>undefined\<close> or \<open>null\<close> is an \<open>option\<close>, and \<open>NaN\<close> (the result of
  \<open>parseInt\<close> on text with no leading digits) is \<open>None\<close> of an \<open>int option\<close>.
\<close>

record NostrEvent =
  ev_id :: string
  ev_pubkey :: string
  ev_created_at :: int
  ev_kind :: int
  ev_tags :: "string list list"
  ev_content :: string
  ev_sig :: string

record CredentialClass =
  cls_name :: string
  cls_scope :: "string list"
  cls_issued_by :: "string list"
  cls_max_days :: "int option"
  cls_renewable :: bool
  cls_cascade_revoke :: bool

record CredentialSchema =
  classes :: "(string \<times> CredentialClass) list"

text \<open>The table \<open>EVENT_KINDS\<close> of types.ts (the four credential kinds).\<close>

definition CREDENTIAL_SCHEMA :: int where "CREDENTIAL_SCHEMA = 30100"
definition CREDENTIAL_GRANT :: int where "CREDENTIAL_GRANT = 30101"
definition CREDENTIAL_REVOCATION :: int where "CREDENTIAL_REVOCATION = 30102"
definition CREDENTIAL_RENEWAL :: int where "CREDENTIAL_RENEWAL = 30103"

datatype VerificationResult =
    VALID nat
  | INVALID string
  | EXPIRED int
  | REVOKED int string

subsection \<open>JavaScript helpers\<close>

text \<open>\<open>!s\<close> for a value of type \<open>string | undefined\<close>: undefined and the empty string are falsy.\<close>

definition falsy :: "string option \<Rightarrow> bool" where
  "falsy s = (case s of None \<Rightarrow> True | Some v \<Rightarrow> v = [])"

text \<open>
  The Number value of a non-negative mathematical integer: itself below \<open>2^53\<close>, and above
  that the nearest integer with 53 significant bits, ties to the even one. From
  \<open>2^1024 - 2^970\<close> on the value is \<open>Infinity\<close>, which is written \<open>2^1024\<close> here: it is
  above every finite double, equal to itself and not zero, so every comparison and
  truthiness test of the source comes out as it does on \<open>Infinity\<close>.
\<close>

function bit_length :: "int \<Rightarrow> nat" where
  "bit_length n = (if n \<le> 0 then 0 else Suc (bit_length (n div 2)))"
  by pat_completeness auto
termination
  by (relation "measure nat") auto

declare bit_length.simps [simp del]

definition to_double :: "int \<Rightarrow> int" where
  "to_double m =
     (if m < 9007199254740992 then m
      else
        let e = bit_length m - 53;
            q = m div 2 ^ e;
            r = m mod 2 ^ e;
            h = 2 ^ (e - 1);
            v = (if r > h \<or> (r = h \<and> odd q) then q + 1 else q) * 2 ^ e
        in if bit_length v > 1024 then 2 ^ 1024 else v)"

text \<open>
  \<open>parseInt(s, 10)\<close>: leading white space is skipped, one sign is read, then the longest
  run of decimal digits; what follows is ignored. No digit gives \<open>NaN\<close> (\<open>None\<close>). The
  digits are read as a mathematical integer and the result is its Number value.
\<close>

definition is_space :: "char \<Rightarrow> bool" where
  "is_space c =
     (c \<in> set [CHR '' '', CHR 0x09, CHR 0x0A, CHR 0x0B, CHR 0x0C, CHR 0x0D, CHR 0xA0])"

definition is_digit :: "char \<Rightarrow> bool" where
  "is_digit c = (CHR ''0'' \<le> c \<and> c \<le> CHR ''9'')"

definition digit_val :: "char \<Rightarrow> int" where
  "digit_val c = int (of_char c) - 48"

definition digits_val :: "string \<Rightarrow> int" where
  "digits_val ds = foldl (\<lambda>acc c. 10 * acc + digit_val c) 0 ds"

definition parse_digits :: "string \<Rightarrow> int option" where
  "parse_digits s =
     (let ds = takeWhile is_digit s
      in if ds = [] then None else Some (to_double (digits_val ds)))"

definition parseInt :: "string \<Rightarrow> int option" where
  "parseInt s =
     (case dropWhile is_space s of
        [] \<Rightarrow> None
      | c # rest \<Rightarrow>
          if c = CHR ''-'' then map_option uminus (parse_digits rest)
          else if c = CHR ''+'' then parse_digits rest
          else parse_digits (c # rest))"

text \<open>Comparisons of numbers that may be \<open>NaN\<close>: every comparison with \<open>NaN\<close> is false.\<close>

definition js_gt :: "int option \<Rightarrow> int option \<Rightarrow> bool" where
  "js_gt a b = (case (a, b) of (Some x, Some y) \<Rightarrow> x > y | _ \<Rightarrow> False)"

definition js_lt :: "int option \<Rightarrow> int option \<Rightarrow> bool" where
  "js_lt a b = (case (a, b) of (Some x, Some y) \<Rightarrow> x < y | _ \<Rightarrow> False)"

definition js_le :: "int option \<Rightarrow> int option \<Rightarrow> bool" where
  "js_le a b = (case (a, b) of (Some x, Some y) \<Rightarrow> x \<le> y | _ \<Rightarrow> False)"

text \<open>\<open>s.split(':')\<close> and \<open>parts.join(':')\<close>.\<close>

fun split_colon :: "string \<Rightarrow> string list" where
  "split_colon [] = [[]]"
| "split_colon (c # cs) =
     (if c = CHR '':'' then [] # split_colon cs
      else (case split_colon cs of
              [] \<Rightarrow> [[c]]
            | p # ps \<Rightarrow> (c # p) # ps))"

fun join_colon :: "string list \<Rightarrow> string" where
  "join_colon [] = []"
| "join_colon [p] = p"
| "join_colon (p # q # ps) = p @ '':'' @ join_colon (q # ps)"

text \<open>
  The expression \<open>x === 'perpetual' ? null : parseInt(x ?? '0', 10) || null\<close>, written
  three times in the source (verify, verifyChain, indexCredential): \<open>NaN\<close> and \<open>0\<close>
  are falsy, so both become \<open>null\<close>.
\<close>

definition numeric_expiry :: "string option \<Rightarrow> int option" where
  "numeric_expiry x =
     (if x = Some ''perpetual'' then None
      else (case parseInt (case x of None \<Rightarrow> ''0'' | Some v \<Rightarrow> v) of
              None \<Rightarrow> None
            | Some n \<Rightarrow> if n = 0 then None else Some n))"

subsection \<open>Tag utilities (crypto.ts)\<close>

text \<open>\<open>event.tags.find(t => t[0] === tagName)?.[1]\<close>\<close>

definition tag_named :: "string \<Rightarrow> string list \<Rightarrow> bool" where
  "tag_named tagName t = (case t of [] \<Rightarrow> False | n # _ \<Rightarrow> n = tagName)"

definition getTagValue :: "NostrEvent \<Rightarrow> string \<Rightarrow> string option" where
  "getTagValue event tagName =
     (case find (tag_named tagName) (ev_tags event) of
        None \<Rightarrow> None
      | Some t \<Rightarrow> (case t of _ # v # _ \<Rightarrow> Some v | _ \<Rightarrow> None))"

record ATag =
  at_kind :: int
  at_pubkey :: string
  at_dTag :: string

definition parseATag :: "string \<Rightarrow> ATag option" where
  "parseATag aTag =
     (let parts = split_colon aTag in
      if length parts < 3 then None
      else (case parseInt (parts ! 0) of
              None \<Rightarrow> None
            | Some k \<Rightarrow>
                if length (parts ! 1) \<noteq> 64 then None
                else Some \<lparr>at_kind = k, at_pubkey = parts ! 1,
                           at_dTag = join_colon (drop 2 parts)\<rparr>))"

section \<open>The event store (relay/src/database.ts)\<close>

text \<open>
  The three SQLite tables are lists of rows in insertion order. An \<open>events\<close> row holds the
  event's seven columns (the \<open>tags\<close> column is the JSON text of the tags, parsed back on
  read) and the three projected columns. \<open>NaN\<close> is bound as SQL \<open>NULL\<close>.
\<close>

record EventRow =
  row_event :: NostrEvent
  d_tag :: "string option"
  a_tag :: "string option"
  expires_at :: "int option"

record CredentialRow =
  event_id :: string
  schema_ref :: string
  class_id :: string
  recipient :: string
  issuer :: string
  issued_at :: int
  cred_expires_at :: "int option"
  chain_ref :: "string option"
  revoked :: int
  revoked_at :: "int option"
  revoke_reason :: "string option"

record SchemaRow =
  ref :: string
  schema_pubkey :: string
  schema_d_tag :: string
  schema_content :: string
  schema_created_at :: int

record EventStore =
  events :: "EventRow list"
  credentials :: "CredentialRow list"
  schemas :: "SchemaRow list"

definition empty_store :: EventStore where
  "empty_store = \<lparr>events = [], credentials = [], schemas = []\<rparr>"

definition isReplaceable :: "int \<Rightarrow> bool" where
  "isReplaceable k = (k = 0 \<or> k = 3 \<or> (k \<ge> 10000 \<and> k < 20000))"

definition isParameterizedReplaceable :: "int \<Rightarrow> bool" where
  "isParameterizedReplaceable k = (k \<ge> 30000 \<and> k < 40000)"

text \<open>
  \<open>DELETE FROM events WHERE ...\<close>: the rows that match go, and with them
  (\<open>ON DELETE CASCADE\<close>, foreign keys being on) the credential rows that reference them.
\<close>

definition delete_events :: "(EventRow \<Rightarrow> bool) \<Rightarrow> EventStore \<Rightarrow> EventStore" where
  "delete_events P st =
     (let gone = map (\<lambda>r. ev_id (row_event r)) (filter P (events st)) in
      st\<lparr>events := filter (\<lambda>r. \<not> P r) (events st),
         credentials := filter (\<lambda>c. event_id c \<notin> set gone) (credentials st)\<rparr>)"

text \<open>The condition \<open>created_at < ? OR (created_at = ? AND id < ?)\<close>.\<close>

definition older_than :: "NostrEvent \<Rightarrow> EventRow \<Rightarrow> bool" where
  "older_than event r =
     (ev_created_at (row_event r) < ev_created_at event \<or>
      (ev_created_at (row_event r) = ev_created_at event \<and>
       ev_id (row_event r) < ev_id event))"

text \<open>\<open>INSERT OR IGNORE INTO events\<close>: a row with the same primary key keeps the insert out.\<close>

definition insert_event :: "EventRow \<Rightarrow> EventStore \<Rightarrow> EventStore" where
  "insert_event r st =
     (if ev_id (row_event r) \<in> set (map (\<lambda>x. ev_id (row_event x)) (events st)) then st
      else st\<lparr>events := events st @ [r]\<rparr>)"

text \<open>
  \<open>indexCredential\<close>. \<open>INSERT OR REPLACE\<close> removes the row with the same \<open>event_id\<close>
  and inserts the new one, whose \<open>revoked\<close> is 0 and whose \<open>revoked_at\<close> and
  \<open>revoke_reason\<close> are the column defaults (\<open>NULL\<close>). The column \<open>issued_at\<close> is
  \<open>NOT NULL\<close>: when \<open>parseInt(issuedAt)\<close> is \<open>NaN\<close> the statement throws, which is the
  result \<open>None\<close> here. The foreign key on \<open>event_id\<close> holds whenever \<open>saveEvent\<close> calls
  this: the event's row has just been inserted or was there already.
\<close>

definition indexCredential :: "NostrEvent \<Rightarrow> EventStore \<Rightarrow> EventStore option" where
  "indexCredential event st =
     (let schemaRef = getTagValue event ''a'';
          classId = getTagValue event ''class'';
          recipientV = getTagValue event ''p'';
          issuedAt = getTagValue event ''issued'';
          expiresAt = getTagValue event ''expires'';
          chainRef = getTagValue event ''chain''
      in if falsy schemaRef \<or> falsy classId \<or> falsy recipientV \<or> falsy issuedAt then Some st
         else (case parseInt (the issuedAt) of
                 None \<Rightarrow> None
               | Some issued \<Rightarrow>
                   Some (st\<lparr>credentials :=
                     filter (\<lambda>c. event_id c \<noteq> ev_id event) (credentials st) @
                     [\<lparr>event_id = ev_id event, schema_ref = the schemaRef,
                       class_id = the classId, recipient = the recipientV,
                       issuer = ev_pubkey event, issued_at = issued,
                       cred_expires_at = numeric_expiry expiresAt,
                       chain_ref = chainRef, revoked = 0,
                       revoked_at = None, revoke_reason = None\<rparr>]\<rparr>)))"

text \<open>\<open>cacheSchema\<close>: the key is the literal \<open>30300:\<close> followed by author and d-tag.\<close>

definition cacheSchema :: "NostrEvent \<Rightarrow> EventStore \<Rightarrow> EventStore" where
  "cacheSchema event st =
     (let dTag = getTagValue event ''d'' in
      if falsy dTag then st
      else (let r = ''30300:'' @ ev_pubkey event @ '':'' @ the dTag in
            st\<lparr>schemas := filter (\<lambda>s. ref s \<noteq> r) (schemas st) @
                 [\<lparr>ref = r, schema_pubkey = ev_pubkey event, schema_d_tag = the dTag,
                   schema_content = ev_content event,
                   schema_created_at = ev_created_at event\<rparr>]\<rparr>))"

definition processRevocation :: "NostrEvent \<Rightarrow> EventStore \<Rightarrow> EventStore" where
  "processRevocation event st =
     (let aTag = getTagValue event ''a'';
          reason = (case getTagValue event ''reason'' of None \<Rightarrow> ''unspecified'' | Some v \<Rightarrow> v)
      in if falsy aTag then st
         else (let parts = split_colon (the aTag) in
               if length parts < 3 \<or> parts ! 0 \<noteq> ''30301'' then st
               else (let credentialId = parts ! 2 in
                     st\<lparr>credentials :=
                          map (\<lambda>c. if event_id c = credentialId
                                    then c\<lparr>revoked := 1,
                                           revoked_at := Some (ev_created_at event),
                                           revoke_reason := Some reason\<rparr>
                                    else c) (credentials st)\<rparr>)))"

definition processRenewal :: "NostrEvent \<Rightarrow> EventStore \<Rightarrow> EventStore" where
  "processRenewal event st =
     (let aTag = getTagValue event ''a'';
          newExpires = getTagValue event ''expires''
      in if falsy aTag \<or> falsy newExpires then st
         else (let parts = split_colon (the aTag) in
               if length parts < 3 \<or> parts ! 0 \<noteq> ''30301'' then st
               else (let credentialId = parts ! 2;
                         expiresAt = parseInt (the newExpires)
                     in st\<lparr>credentials :=
                             map (\<lambda>c. if event_id c = credentialId \<and> revoked c = 0
                                       then c\<lparr>cred_expires_at := expiresAt\<rparr>
                                       else c) (credentials st)\<rparr>)))"

text \<open>
  \<open>saveEvent\<close>, block by block. The two \<open>DELETE\<close> statements that precede the insert:
\<close>

definition delete_replaceable :: "NostrEvent \<Rightarrow> EventStore \<Rightarrow> EventStore" where
  "delete_replaceable event st =
     (if isReplaceable (ev_kind event)
      then delete_events (\<lambda>r. ev_kind (row_event r) = ev_kind event \<and>
                               ev_pubkey (row_event r) = ev_pubkey event \<and>
                               older_than event r) st
      else st)"

definition delete_parameterized :: "NostrEvent \<Rightarrow> string option \<Rightarrow> EventStore \<Rightarrow> EventStore" where
  "delete_parameterized event dTag st =
     (if isParameterizedReplaceable (ev_kind event) \<and> dTag \<noteq> None
      then delete_events (\<lambda>r. ev_kind (row_event r) = ev_kind event \<and>
                               ev_pubkey (row_event r) = ev_pubkey event \<and>
                               d_tag r = dTag \<and> older_than event r) st
      else st)"

text \<open>The three kind tests that follow \<open>indexCredential\<close> inside the \<open>try\<close> block:\<close>

definition after_index :: "NostrEvent \<Rightarrow> EventStore \<Rightarrow> EventStore" where
  "after_index event st4 =
     (let st5 = (if ev_kind event = CREDENTIAL_SCHEMA then cacheSchema event st4 else st4);
          st6 = (if ev_kind event = CREDENTIAL_REVOCATION
                 then processRevocation event st5 else st5)
      in if ev_kind event = CREDENTIAL_RENEWAL then processRenewal event st6 else st6)"

text \<open>The store after the two deletes and the \<open>INSERT OR IGNORE\<close> of the event's row:\<close>

definition insert_stage :: "NostrEvent \<Rightarrow> EventStore \<Rightarrow> EventStore" where
  "insert_stage event st =
     (let dTag = getTagValue event ''d'';
          aTag = getTagValue event ''a'';
          expiresTag = getTagValue event ''expiration'';
          expiresAt = (if falsy expiresTag then None else parseInt (the expiresTag))
      in insert_event \<lparr>row_event = event, d_tag = dTag, a_tag = aTag,
                         expires_at = expiresAt\<rparr>
           (delete_parameterized event dTag (delete_replaceable event st)))"

text \<open>
  \<open>saveEvent\<close> returns the boolean and the store it leaves. Every statement commits on its
  own, so when \<open>indexCredential\<close> throws the result is \<open>false\<close> with the event inserted.
\<close>

definition saveEvent :: "EventStore \<Rightarrow> NostrEvent \<Rightarrow> bool \<times> EventStore" where
  "saveEvent st event =
     (let st3 = insert_stage event st
      in case (if ev_kind event = CREDENTIAL_GRANT then indexCredential event st3
               else Some st3) of
           None \<Rightarrow> (False, st3)
         | Some st4 \<Rightarrow> (True, after_index event st4))"

text \<open>A sequence of \<open>saveEvent\<close> calls, the returned booleans dropped.\<close>

definition saveEvents :: "EventStore \<Rightarrow> NostrEvent list \<Rightarrow> EventStore" where
  "saveEvents st evs = foldl (\<lambda>s e. snd (saveEvent s e)) st evs"

text \<open>
  \<open>queryEvents\<close>. A filter field that is absent or an empty array adds no condition. The
  filters \<open>#e\<close> and \<open>#p\<close> (a \<open>LIKE\<close> over the JSON text of the tags) are left out of the
  filter type: the model covers the queries that do not use them. The wall clock read by
  the expiration condition is the argument \<open>clock\<close>. \<open>ORDER BY created_at DESC\<close> is a
  stable sort of the rows in insertion order (SQLite leaves the order of ties open).
\<close>

record Filter =
  f_ids :: "string list"
  f_authors :: "string list"
  f_kinds :: "int list"
  f_a :: "string list"
  f_d :: "string list"
  f_since :: "int option"
  f_until :: "int option"
  f_limit :: "nat option"

definition no_filter :: Filter where
  "no_filter = \<lparr>f_ids = [], f_authors = [], f_kinds = [], f_a = [], f_d = [],
                 f_since = None, f_until = None, f_limit = None\<rparr>"

definition matches_row :: "int \<Rightarrow> Filter \<Rightarrow> EventRow \<Rightarrow> bool" where
  "matches_row clock f r =
     ((f_ids f = [] \<or> ev_id (row_event r) \<in> set (f_ids f)) \<and>
      (f_authors f = [] \<or> ev_pubkey (row_event r) \<in> set (f_authors f)) \<and>
      (f_kinds f = [] \<or> ev_kind (row_event r) \<in> set (f_kinds f)) \<and>
      (f_a f = [] \<or> (case a_tag r of None \<Rightarrow> False | Some a \<Rightarrow> a \<in> set (f_a f))) \<and>
      (f_d f = [] \<or> (case d_tag r of None \<Rightarrow> False | Some d \<Rightarrow> d \<in> set (f_d f))) \<and>
      (case f_since f of None \<Rightarrow> True | Some s \<Rightarrow> ev_created_at (row_event r) \<ge> s) \<and>
      (case f_until f of None \<Rightarrow> True | Some u \<Rightarrow> ev_created_at (row_event r) \<le> u) \<and>
      (case expires_at r of None \<Rightarrow> True | Some x \<Rightarrow> x > clock))"

definition queryEvents :: "int \<Rightarrow> EventStore \<Rightarrow> Filter \<Rightarrow> NostrEvent list" where
  "queryEvents clock st f =
     map row_event
       (take (case f_limit f of None \<Rightarrow> 500 | Some n \<Rightarrow> n)
          (sort_key (\<lambda>r. - ev_created_at (row_event r))
             (filter (matches_row clock f) (events st))))"

definition getCredential :: "EventStore \<Rightarrow> string \<Rightarrow> CredentialRow option" where
  "getCredential st eventId = find (\<lambda>c. event_id c = eventId) (credentials st)"

definition getSchema :: "EventStore \<Rightarrow> string \<Rightarrow> SchemaRow option" where
  "getSchema st r = find (\<lambda>s. ref s = r) (schemas st)"

section \<open>The credential verifier (credentials.ts)\<close>

text \<open>
  \<open>JSON.parse\<close> is the language's own; the verifier takes it as the parameter
  \<open>JSON_parse\<close>, from the cached text to the schema document, \<open>None\<close> when it throws.
  A schema's \<open>classes\<close> object is the association list of its entries. This covers the
  cached texts that parse to a document of the declared type \<open>CredentialSchema\<close> (what
  \<open>validateSchema\<close> admits) and the class ids that the document defines or that name no
  property of \<open>Object.prototype\<close>: on other contents, and on a class id such as
  \<open>constructor\<close> that the document does not define, the source throws a \<open>TypeError\<close>
  where \<open>map_of\<close> answers \<open>None\<close>.
\<close>

definition verifier_getSchema ::
    "(string \<Rightarrow> CredentialSchema option) \<Rightarrow> EventStore \<Rightarrow> string \<Rightarrow> CredentialSchema option" where
  "verifier_getSchema JSON_parse st schemaRef =
     (case getSchema st schemaRef of
        None \<Rightarrow> None
      | Some cached \<Rightarrow> JSON_parse (schema_content cached))"

definition findCredentialEvent :: "int \<Rightarrow> EventStore \<Rightarrow> string \<Rightarrow> string \<Rightarrow> NostrEvent option" where
  "findCredentialEvent clock st pubkey dTag =
     (case queryEvents clock st
             (no_filter\<lparr>f_kinds := [CREDENTIAL_GRANT], f_authors := [pubkey],
                        f_d := [dTag], f_limit := Some 1\<rparr>) of
        [] \<Rightarrow> None
      | e # _ \<Rightarrow> Some e)"

text \<open>
  Every call of \<open>findCredentialEvent\<close> made by the chain walk is logged: the address looked
  up, the issuance time of the downstream grant it is checked against, and what the store
  returned. The walk returns its verdict together with this log.
\<close>

record ChainLookup =
  lk_pubkey :: string
  lk_dTag :: string
  lk_child_issued :: "int option"
  lk_found :: "NostrEvent option"

text \<open>
  The cascade test \<open>issuerCredRow?.revoked\<close> and then
  \<open>cascade_revoke && revoked_at && revoked_at <= credentialIssuedAt\<close>.
\<close>

definition cascade_revoked :: "CredentialRow option \<Rightarrow> CredentialClass \<Rightarrow> int option \<Rightarrow> bool" where
  "cascade_revoked issuerCredRow issuerClassDef credentialIssuedAt =
     (case issuerCredRow of
        None \<Rightarrow> False
      | Some row \<Rightarrow>
          revoked row \<noteq> 0 \<and> cls_cascade_revoke issuerClassDef \<and>
          (case revoked_at row of
             None \<Rightarrow> False
           | Some t \<Rightarrow> t \<noteq> 0 \<and> js_le (Some t) credentialIssuedAt))"

function verifyChain ::
    "int \<Rightarrow> EventStore \<Rightarrow> string \<Rightarrow> int option \<Rightarrow> string \<Rightarrow> string list \<Rightarrow> string \<Rightarrow>
     CredentialSchema \<Rightarrow> string \<Rightarrow> int \<Rightarrow> nat \<Rightarrow> VerificationResult \<times> ChainLookup list" where
  "verifyChain clock st issuerPubkey credentialIssuedAt credentialClassId allowedIssuers
       chainRef schema rootPubkey now depth =
     (if depth > 5 then (INVALID ''chain too deep (max 5)'', [])
      else case parseATag chainRef of
        None \<Rightarrow> (INVALID ''invalid chain reference'', [])
      | Some chainInfo \<Rightarrow>
        if at_kind chainInfo \<noteq> 30301 then (INVALID ''invalid chain reference'', [])
        else
          let found = findCredentialEvent clock st (at_pubkey chainInfo) (at_dTag chainInfo);
              lk = \<lparr>lk_pubkey = at_pubkey chainInfo, lk_dTag = at_dTag chainInfo,
                    lk_child_issued = credentialIssuedAt, lk_found = found\<rparr>
          in case found of
            None \<Rightarrow> (INVALID ''issuer credential not found'', [lk])
          | Some issuerCredentialEvent \<Rightarrow>
            if getTagValue issuerCredentialEvent ''p'' \<noteq> Some issuerPubkey
            then (INVALID ''chain pubkey mismatch'', [lk])
            else
              let issuerClassId = getTagValue issuerCredentialEvent ''class'' in
              if falsy issuerClassId then (INVALID ''issuer credential missing class'', [lk])
              else if the issuerClassId \<notin> set allowedIssuers
              then (INVALID (''issuer class '' @ [CHR 0x27] @ the issuerClassId @ [CHR 0x27] @
                             '' not authorized to issue '' @ [CHR 0x27] @ credentialClassId @
                             [CHR 0x27]), [lk])
              else case map_of (classes schema) (the issuerClassId) of
                None \<Rightarrow> (INVALID ''issuer class not found in schema'', [lk])
              | Some issuerClassDef \<Rightarrow>
                if credentialClassId \<notin> set (cls_scope issuerClassDef)
                then (INVALID (''issuer class '' @ [CHR 0x27] @ the issuerClassId @ [CHR 0x27] @
                               '' lacks scope to issue '' @ [CHR 0x27] @ credentialClassId @
                               [CHR 0x27]), [lk])
                else
                  let issuerIssuedStr = getTagValue issuerCredentialEvent ''issued'';
                      issuerExpiresStr = getTagValue issuerCredentialEvent ''expires''
                  in
                  if falsy issuerIssuedStr
                  then (INVALID ''issuer credential missing issued timestamp'', [lk])
                  else
                    let issuerIssuedAt = parseInt (the issuerIssuedStr);
                        issuerExpiresAt = numeric_expiry issuerExpiresStr
                    in
                    if js_gt issuerIssuedAt credentialIssuedAt
                    then (INVALID ''issuer credential issued after downstream credential'', [lk])
                    else if issuerExpiresAt \<noteq> None \<and> js_lt issuerExpiresAt credentialIssuedAt
                    then (INVALID ''issuer credential was expired at issuance time'', [lk])
                    else if cascade_revoked (getCredential st (ev_id issuerCredentialEvent))
                              issuerClassDef credentialIssuedAt
                    then (INVALID ''issuer credential was revoked (cascade)'', [lk])
                    else
                      let issuerChainRef = getTagValue issuerCredentialEvent ''chain'' in
                      if ''root'' \<in> set (cls_issued_by issuerClassDef) \<and>
                         ev_pubkey issuerCredentialEvent = rootPubkey
                      then (VALID depth, [lk])
                      else if falsy issuerChainRef
                      then (INVALID ''broken chain - non-root issuer without chain reference'', [lk])
                      else
                        (case verifyChain clock st (ev_pubkey issuerCredentialEvent)
                                issuerIssuedAt (the issuerClassId)
                                (cls_issued_by issuerClassDef) (the issuerChainRef)
                                schema rootPubkey now (depth + 1) of
                           (res, lks) \<Rightarrow> (res, lk # lks)))"
  by pat_completeness auto
termination
  by (relation "measure (\<lambda>(clock, st, ip, cia, cc, ai, cr, sch, rp, now, depth). 6 - depth)") auto

declare verifyChain.simps [simp del]

definition verify ::
    "(string \<Rightarrow> CredentialSchema option) \<Rightarrow> int \<Rightarrow> EventStore \<Rightarrow> NostrEvent \<Rightarrow> int \<Rightarrow>
     VerificationResult \<times> ChainLookup list" where
  "verify JSON_parse clock st credentialEvent now =
     (if ev_kind credentialEvent \<noteq> CREDENTIAL_GRANT
      then (INVALID ''not a credential event'', [])
      else
        let schemaRef = getTagValue credentialEvent ''a'';
            classId = getTagValue credentialEvent ''class'';
            issuedStr = getTagValue credentialEvent ''issued'';
            expiresStr = getTagValue credentialEvent ''expires'';
            chainRef = getTagValue credentialEvent ''chain''
        in
        if falsy schemaRef \<or> falsy classId \<or> falsy issuedStr
        then (INVALID ''missing required tags'', [])
        else
          let issuedAt = parseInt (the issuedStr);
              expiresAt = numeric_expiry expiresStr;
              credRow = getCredential st (ev_id credentialEvent)
          in
          case (case credRow of None \<Rightarrow> None
                | Some row \<Rightarrow> if revoked row \<noteq> 0 then Some row else None) of
            Some row \<Rightarrow>
              (REVOKED (case revoked_at row of None \<Rightarrow> now | Some t \<Rightarrow> t)
                       (case revoke_reason row of None \<Rightarrow> ''unspecified'' | Some r \<Rightarrow> r), [])
          | None \<Rightarrow>
              let effectiveExpiry =
                    (case credRow of
                       None \<Rightarrow> expiresAt
                     | Some row \<Rightarrow>
                         (case cred_expires_at row of None \<Rightarrow> expiresAt | Some e \<Rightarrow> Some e))
              in
              case (case effectiveExpiry of None \<Rightarrow> None
                    | Some e \<Rightarrow> if e < now then Some e else None) of
                Some e \<Rightarrow> (EXPIRED e, [])
              | None \<Rightarrow>
                  (case verifier_getSchema JSON_parse st (the schemaRef) of
                     None \<Rightarrow> (INVALID ''schema not found'', [])
                   | Some schema \<Rightarrow>
                       (case map_of (classes schema) (the classId) of
                          None \<Rightarrow> (INVALID ''credential class not found in schema'', [])
                        | Some classDefinition \<Rightarrow>
                            (case parseATag (the schemaRef) of
                               None \<Rightarrow> (INVALID ''invalid schema reference'', [])
                             | Some schemaInfo \<Rightarrow>
                                 let rootPubkey = at_pubkey schemaInfo in
                                 if ''root'' \<in> set (cls_issued_by classDefinition) \<and>
                                    ev_pubkey credentialEvent = rootPubkey
                                 then (VALID 0, [])
                                 else if falsy chainRef
                                 then (INVALID ''non-root issuer without chain reference'', [])
                                 else verifyChain clock st (ev_pubkey credentialEvent) issuedAt
                                        (the classId) (cls_issued_by classDefinition)
                                        (the chainRef) schema rootPubkey now 1))))"

section \<open>The event validator (crypto.ts)\<close>

text \<open>
  \<open>validateEvent\<close> runs on what the connection delivered, before anything is known about
  its shape, so its argument is a record of JSON values, \<open>JUndefined\<close> for a missing
  property. The two library calls are parameters: \<open>hash_hex\<close> is
  \<open>bytesToHex(sha256(utf8(JSON.stringify(x))))\<close>, and \<open>schnorr_verify sig id pubkey\<close> is
  the BIP-340 check on the decoded hex strings, false when decoding throws.
\<close>

datatype json =
    JUndefined
  | JNull
  | JBool bool
  | JNum rat
  | JStr string
  | JArr "json list"
  | JObj "(string \<times> json) list"

record RawEvent =
  r_id :: json
  r_pubkey :: json
  r_created_at :: json
  r_kind :: json
  r_tags :: json
  r_content :: json
  r_sig :: json

datatype Validation = Valid | Invalid string

definition js_not :: "json \<Rightarrow> bool" where
  "js_not j = (case j of
       JUndefined \<Rightarrow> True | JNull \<Rightarrow> True | JBool b \<Rightarrow> \<not> b
     | JNum q \<Rightarrow> q = 0 | JStr s \<Rightarrow> s = [] | JArr _ \<Rightarrow> False | JObj _ \<Rightarrow> False)"

definition is_string :: "json \<Rightarrow> bool" where
  "is_string j = (case j of JStr _ \<Rightarrow> True | _ \<Rightarrow> False)"

definition is_number :: "json \<Rightarrow> bool" where
  "is_number j = (case j of JNum _ \<Rightarrow> True | _ \<Rightarrow> False)"

definition isArray :: "json \<Rightarrow> bool" where
  "isArray j = (case j of JArr _ \<Rightarrow> True | _ \<Rightarrow> False)"

definition str_of :: "json \<Rightarrow> string" where
  "str_of j = (case j of JStr s \<Rightarrow> s | _ \<Rightarrow> [])"

definition num_of :: "json \<Rightarrow> rat" where
  "num_of j = (case j of JNum q \<Rightarrow> q | _ \<Rightarrow> 0)"

definition computeEventId :: "(json \<Rightarrow> string) \<Rightarrow> RawEvent \<Rightarrow> string" where
  "computeEventId hash_hex event =
     hash_hex (JArr [JNum 0, r_pubkey event, r_created_at event, r_kind event,
                     r_tags event, r_content event])"

definition verifySignature :: "(string \<Rightarrow> string \<Rightarrow> string \<Rightarrow> bool) \<Rightarrow> RawEvent \<Rightarrow> bool" where
  "verifySignature schnorr_verify event =
     schnorr_verify (str_of (r_sig event)) (str_of (r_id event)) (str_of (r_pubkey event))"

definition validateEvent ::
    "(json \<Rightarrow> string) \<Rightarrow> (string \<Rightarrow> string \<Rightarrow> string \<Rightarrow> bool) \<Rightarrow> RawEvent \<Rightarrow> Validation" where
  "validateEvent hash_hex schnorr_verify event =
     (if js_not (r_id event) \<or> \<not> is_string (r_id event) \<or> length (str_of (r_id event)) \<noteq> 64
      then Invalid ''invalid id''
      else if js_not (r_pubkey event) \<or> \<not> is_string (r_pubkey event) \<or>
              length (str_of (r_pubkey event)) \<noteq> 64
      then Invalid ''invalid pubkey''
      else if js_not (r_sig event) \<or> \<not> is_string (r_sig event) \<or>
              length (str_of (r_sig event)) \<noteq> 128
      then Invalid ''invalid sig''
      else if \<not> is_number (r_created_at event) \<or> num_of (r_created_at event) < 0
      then Invalid ''invalid created_at''
      else if \<not> is_number (r_kind event) \<or> num_of (r_kind event) < 0
      then Invalid ''invalid kind''
      else if \<not> isArray (r_tags event) then Invalid ''invalid tags''
      else if \<not> is_string (r_content event) then Invalid ''invalid content''
      else if computeEventId hash_hex event \<noteq> str_of (r_id event) then Invalid ''id mismatch''
      else if \<not> verifySignature schnorr_verify event then Invalid ''invalid signature''
      else Valid)"

section \<open>The properties, in the specification's words\<close>

text \<open>
  The composite address \<open><kind>:<pubkey>:<d-tag>\<close> of the specification, computed from a
  numeric kind.
\<close>

fun decimal :: "nat \<Rightarrow> string" where
  "decimal n =
     (if n < 10 then [''0123456789'' ! n]
      else decimal (n div 10) @ [''0123456789'' ! (n mod 10)])"

declare decimal.simps [simp del]

definition address :: "int \<Rightarrow> string \<Rightarrow> string \<Rightarrow> string" where
  "address k pk d = decimal (nat k) @ '':'' @ pk @ '':'' @ d"

text \<open>A numeric tag of an event, as \<open>parseInt\<close> reads it.\<close>

definition tag_int :: "NostrEvent \<Rightarrow> string \<Rightarrow> int option" where
  "tag_int e n = (case getTagValue e n of None \<Rightarrow> None | Some v \<Rightarrow> parseInt v)"

text \<open>
  Authority at issuance for one link of the walked chain, as the specification words it:
  the upstream grant was issued no later than the downstream one, and an \<open>expires\<close> tag that
  is a number is no earlier than the downstream issuance.
\<close>

definition claimed_authority_at_issuance :: "ChainLookup \<Rightarrow> bool" where
  "claimed_authority_at_issuance lk =
     (case lk_found lk of
        None \<Rightarrow> False
      | Some U \<Rightarrow>
          js_le (tag_int U ''issued'') (lk_child_issued lk) \<and>
          (case tag_int U ''expires'' of
             None \<Rightarrow> True
           | Some e \<Rightarrow> js_le (lk_child_issued lk) (Some e)))"

text \<open>
  The upstream grant a lookup found has an expiry that the walk compares with the
  downstream issuance time: its expiry expression is a number.
\<close>

definition expiry_compared :: "ChainLookup \<Rightarrow> bool" where
  "expiry_compared lk =
     (case lk_found lk of
        None \<Rightarrow> False
      | Some U \<Rightarrow> numeric_expiry (getTagValue U ''expires'') \<noteq> None)"

text \<open>The tags field is an array of arrays.\<close>

definition array_of_arrays :: "json \<Rightarrow> bool" where
  "array_of_arrays j = (case j of JArr xs \<Rightarrow> list_all isArray xs | _ \<Rightarrow> False)"

section \<open>Concrete events\<close>

text \<open>
  Four keys: the schema authority \<open>pkR\<close>, a director \<open>pkD\<close>, an instructor \<open>pkA\<close> and an
  outsider \<open>pkM\<close>. The schema has a root-issued class that is not renewable, a class the
  director issues, and a class whose holders issue it to each other.
\<close>

definition pkR :: string where "pkR = replicate 64 (CHR ''a'')"
definition pkD :: string where "pkD = replicate 64 (CHR ''d'')"
definition pkA :: string where "pkA = replicate 64 (CHR ''b'')"
definition pkM :: string where "pkM = replicate 64 (CHR ''e'')"

definition schema1 :: CredentialSchema where
  "schema1 = \<lparr>classes =
     [(''director'',
         \<lparr>cls_name = ''Director'', cls_scope = [''instructor''], cls_issued_by = [''root''],
          cls_max_days = None, cls_renewable = False, cls_cascade_revoke = False\<rparr>),
      (''instructor'',
         \<lparr>cls_name = ''Instructor'', cls_scope = [], cls_issued_by = [''director''],
          cls_max_days = None, cls_renewable = True, cls_cascade_revoke = False\<rparr>),
      (''peer'',
         \<lparr>cls_name = ''Peer'', cls_scope = [''peer''], cls_issued_by = [''peer''],
          cls_max_days = None, cls_renewable = True, cls_cascade_revoke = False\<rparr>)]\<rparr>"

definition schema_text :: string where
  \<open>schema_text =
     ''{"classes":{'' @
     ''"director":{"name":"Director","scope":["instructor"],"issued_by":["root"],'' @
     ''"expiry":{"max_days":null,"renewable":false},"cascade_revoke":false},'' @
     ''"instructor":{"name":"Instructor","scope":[],"issued_by":["director"],'' @
     ''"expiry":{"max_days":null,"renewable":true},"cascade_revoke":false},'' @
     ''"peer":{"name":"Peer","scope":["peer"],"issued_by":["peer"],'' @
     ''"expiry":{"max_days":null,"renewable":true},"cascade_revoke":false}}}''\<close>

text \<open>
  \<open>JSON.parse\<close> restricted to the one text the concrete stores cache: it reads the schema
  text above as \<open>schema1\<close>; any other text counts as one it throws on.
\<close>

definition parse1 :: "string \<Rightarrow> CredentialSchema option" where
  "parse1 s = (if s = schema_text then Some schema1 else None)"

definition schemaEv :: NostrEvent where
  "schemaEv = \<lparr>ev_id = ''s1'', ev_pubkey = pkR, ev_created_at = 1, ev_kind = 30100,
     ev_tags = [[''d'', ''s''], [''name'', ''s'']], ev_content = schema_text, ev_sig = []\<rparr>"

text \<open>The key under which \<open>cacheSchema\<close> files the schema event.\<close>

definition sref :: string where "sref = ''30300:'' @ pkR @ '':s''"

definition grant :: "string \<Rightarrow> string \<Rightarrow> string \<Rightarrow> string \<Rightarrow> string \<Rightarrow> string \<Rightarrow> string \<Rightarrow>
    string list list \<Rightarrow> NostrEvent" where
  "grant i author d p cls issuedV expiresV extra =
     \<lparr>ev_id = i, ev_pubkey = author, ev_created_at = 5, ev_kind = 30101,
      ev_tags = [[''d'', d], [''p'', p], [''a'', sref], [''class'', cls],
                 [''issued'', issuedV], [''expires'', expiresV]] @ extra,
      ev_content = [], ev_sig = []\<rparr>"

definition grantD :: NostrEvent where
  "grantD = grant ''u1'' pkR ''dir1'' pkD ''director'' ''5'' ''1000'' []"

definition grantD_past :: NostrEvent where
  "grantD_past = grant ''u1'' pkR ''dir1'' pkD ''director'' ''5'' ''100'' []"

definition grantD_zero :: NostrEvent where
  "grantD_zero = grant ''u0'' pkR ''dir0'' pkD ''director'' ''5'' ''0'' []"

definition grantA :: NostrEvent where
  "grantA = grant ''g1'' pkD ''ins1'' pkA ''instructor'' ''10'' ''perpetual''
              [[''chain'', ''30301:'' @ pkR @ '':dir1'']]"

definition grantA_configured :: NostrEvent where
  "grantA_configured = grant ''g2'' pkD ''ins2'' pkA ''instructor'' ''10'' ''perpetual''
              [[''chain'', ''30101:'' @ pkR @ '':dir1'']]"

definition grantA_zero :: NostrEvent where
  "grantA_zero = grant ''g3'' pkD ''ins3'' pkA ''instructor'' ''10'' ''perpetual''
              [[''chain'', ''30301:'' @ pkR @ '':dir0'']]"

definition grantA_late :: NostrEvent where
  "grantA_late = grant ''g5'' pkD ''ins5'' pkA ''instructor'' ''200'' ''perpetual''
              [[''chain'', ''30301:'' @ pkR @ '':dir1'']]"

definition grantA_nan :: NostrEvent where
  "grantA_nan = grant ''g4'' pkD ''ins4'' pkA ''instructor'' ''soon'' ''perpetual''
              [[''chain'', ''30301:'' @ pkR @ '':dir1'']]"

definition peerA :: NostrEvent where
  "peerA = grant ''c1'' pkD ''a'' pkA ''peer'' ''5'' ''perpetual''
              [[''chain'', ''30301:'' @ pkA @ '':b'']]"

definition peerB :: NostrEvent where
  "peerB = grant ''c2'' pkA ''b'' pkD ''peer'' ''5'' ''perpetual''
              [[''chain'', ''30301:'' @ pkD @ '':a'']]"

text \<open>
  Three peers in a line: \<open>peerLow\<close> (issued 300) chains to \<open>peerZero\<close> (issued 200,
  \<open>expires = 0\<close>), which chains to \<open>peerTop\<close> (issued 5, expired at 100).
\<close>

definition peerTop :: NostrEvent where
  "peerTop = grant ''p0'' pkM ''top'' pkD ''peer'' ''5'' ''100'' []"

definition peerZero :: NostrEvent where
  "peerZero = grant ''p1'' pkD ''mid'' pkA ''peer'' ''200'' ''0''
              [[''chain'', ''30301:'' @ pkM @ '':top'']]"

definition peerLow :: NostrEvent where
  "peerLow = grant ''p2'' pkA ''low'' pkM ''peer'' ''300'' ''perpetual''
              [[''chain'', ''30301:'' @ pkD @ '':mid'']]"

definition revocationM :: NostrEvent where
  "revocationM = \<lparr>ev_id = ''r1'', ev_pubkey = pkM, ev_created_at = 20, ev_kind = 30102,
     ev_tags = [[''a'', ''30301:'' @ pkR @ '':u1''], [''reason'', ''misconduct'']],
     ev_content = [], ev_sig = []\<rparr>"

definition renewalR :: NostrEvent where
  "renewalR = \<lparr>ev_id = ''n1'', ev_pubkey = pkR, ev_created_at = 30, ev_kind = 30103,
     ev_tags = [[''a'', ''30301:'' @ pkR @ '':u1''], [''expires'', ''10000'']],
     ev_content = [], ev_sig = []\<rparr>"

definition metaNew :: NostrEvent where
  "metaNew = \<lparr>ev_id = ''m2'', ev_pubkey = pkM, ev_created_at = 2, ev_kind = 0,
     ev_tags = [], ev_content = ''new'', ev_sig = []\<rparr>"

definition metaOld :: NostrEvent where
  "metaOld = \<lparr>ev_id = ''m1'', ev_pubkey = pkM, ev_created_at = 1, ev_kind = 0,
     ev_tags = [], ev_content = ''old'', ev_sig = []\<rparr>"

definition listNew :: NostrEvent where
  "listNew = \<lparr>ev_id = ''l2'', ev_pubkey = pkM, ev_created_at = 2, ev_kind = 30000,
     ev_tags = [[''d'', ''x'']], ev_content = ''new'', ev_sig = []\<rparr>"

definition listOld :: NostrEvent where
  "listOld = \<lparr>ev_id = ''l1'', ev_pubkey = pkM, ev_created_at = 1, ev_kind = 30000,
     ev_tags = [[''d'', ''x'']], ev_content = ''old'', ev_sig = []\<rparr>"

text \<open>
  For the validator: an event whose tags array holds a string, and library answers under
  which its id is the hash of its canonical form and its signature verifies.
\<close>

definition flatTags :: RawEvent where
  "flatTags = \<lparr>r_id = JStr (replicate 64 (CHR ''0'')), r_pubkey = JStr pkM,
     r_created_at = JNum 7, r_kind = JNum 1, r_tags = JArr [JStr ''x''],
     r_content = JStr ''hello'', r_sig = JStr (replicate 128 (CHR ''1''))\<rparr>"

definition noTags :: RawEvent where
  "noTags = flatTags\<lparr>r_tags := JStr ''x''\<rparr>"

definition hash_zeros :: "json \<Rightarrow> string" where
  "hash_zeros x = replicate 64 (CHR ''0'')"

definition verify_accepting :: "string \<Rightarrow> string \<Rightarrow> string \<Rightarrow> bool" where
  "verify_accepting sg i pk = True"

section \<open>The chain walk: bound and termination\<close>

lemma verifyChain_too_deep:
  "depth > 5 \<Longrightarrow>
   verifyChain clock st ip cia cc ai cr sch rp now depth =
     (INVALID ''chain too deep (max 5)'', [])"
  by (subst verifyChain.simps) simp

lemma verifyChain_lookups_aux:
  "6 - depth = k \<Longrightarrow>
   length (snd (verifyChain clock st ip cia cc ai cr sch rp now depth)) \<le> k"
proof (induction k arbitrary: ip cia cc ai cr depth)
  case 0
  then have "depth > 5" by simp
  then show ?case by (simp add: verifyChain_too_deep)
next
  case (Suc k)
  have IH: "\<And>ip cia cc ai cr.
      length (snd (verifyChain clock st ip cia cc ai cr sch rp now (Suc depth))) \<le> k"
    using Suc.prems by (intro Suc.IH) simp
  show ?case
    by (subst verifyChain.simps) (simp add: Let_def split_beta IH split: option.splits)
qed

lemma verifyChain_lookups:
  "length (snd (verifyChain clock st ip cia cc ai cr sch rp now depth)) \<le> 6 - depth"
  by (rule verifyChain_lookups_aux) simp

lemma verify_lookups: "length (snd (verify JSON_parse clock st g now)) \<le> 5"
proof -
  have "\<And>ip cia cc ai cr sch rp.
      length (snd (verifyChain clock st ip cia cc ai cr sch rp now 1)) \<le> 5"
    using verifyChain_lookups [where depth = 1] by simp
  then show ?thesis
    by (simp add: verify_def Let_def split: option.splits)
qed

text \<open>
  Claim C6. For every grant and every store contents, \<open>verify\<close> returns (the walk is a total
  function: its recursion is on \<open>6 - depth\<close>, whatever the chain references point to, cycles
  included) after at most 5 upstream-grant lookups, and a walk entered at a depth greater
  than 5 returns \<open>INVALID\<close> with the reason \<open>chain too deep (max 5)\<close> without any lookup.
\<close>

theorem C6_chain_bound:
  "(\<exists>res lks. verify JSON_parse clock st g now = (res, lks) \<and> length lks \<le> 5) \<and>
   (depth > 5 \<longrightarrow>
      verifyChain clock st ip cia cc ai cr sch rp now depth =
        (INVALID ''chain too deep (max 5)'', []))"
proof
  have "verify JSON_parse clock st g now =
          (fst (verify JSON_parse clock st g now), snd (verify JSON_parse clock st g now))"
    by simp
  then show "\<exists>res lks. verify JSON_parse clock st g now = (res, lks) \<and> length lks \<le> 5"
    using verify_lookups by blast
next
  show "depth > 5 \<longrightarrow>
      verifyChain clock st ip cia cc ai cr sch rp now depth =
        (INVALID ''chain too deep (max 5)'', [])"
    by (simp add: verifyChain_too_deep)
qed

theorem C6_chain_bound_witness:
  "(\<exists>res lks. verify parse1 0 (saveEvents empty_store [schemaEv, peerA, peerB]) peerA 100
                 = (res, lks) \<and> length lks \<le> 5) \<and>
   (6::nat) > 5 \<and>
   verifyChain 0 (saveEvents empty_store [schemaEv, peerA, peerB]) pkD (Some 5) ''peer''
       [''peer''] (''30301:'' @ pkA @ '':b'') schema1 pkR 100 6 =
     (INVALID ''chain too deep (max 5)'', [])"
  using C6_chain_bound [where JSON_parse = parse1 and clock = 0
      and st = "saveEvents empty_store [schemaEv, peerA, peerB]" and g = peerA and now = 100
      and depth = 6 and ip = pkD and cia = "Some 5" and cc = "''peer''"
      and ai = "[''peer'']" and cr = "''30301:'' @ pkA @ '':b''" and sch = schema1
      and rp = pkR]
  by simp

text \<open>
  Two grants whose chain references point at each other: the walk reads five upstream
  grants and stops.
\<close>

lemma cyclic_chain_stops:
  "fst (verify parse1 0 (saveEvents empty_store [schemaEv, peerA, peerB]) peerA 100) =
     INVALID ''chain too deep (max 5)'' \<and>
   length (snd (verify parse1 0 (saveEvents empty_store [schemaEv, peerA, peerB]) peerA 100)) = 5"
  by code_simp

section \<open>The schema cache\<close>

text \<open>Only \<open>cacheSchema\<close> writes the \<open>schemas\<close> table, and every key it writes starts with \<open>30300:\<close>.\<close>

lemma schemas_delete_events: "schemas (delete_events P st) = schemas st"
  by (simp add: delete_events_def Let_def)

lemma schemas_delete_replaceable: "schemas (delete_replaceable e st) = schemas st"
  by (simp add: delete_replaceable_def schemas_delete_events)

lemma schemas_delete_parameterized: "schemas (delete_parameterized e d st) = schemas st"
  by (simp add: delete_parameterized_def schemas_delete_events)

lemma schemas_insert_event: "schemas (insert_event r st) = schemas st"
  by (simp add: insert_event_def)

lemma schemas_indexCredential: "indexCredential e st = Some st' \<Longrightarrow> schemas st' = schemas st"
  by (auto simp: indexCredential_def Let_def split: if_splits option.splits)

lemma schemas_processRevocation: "schemas (processRevocation e st) = schemas st"
  by (simp add: processRevocation_def Let_def)

lemma schemas_processRenewal: "schemas (processRenewal e st) = schemas st"
  by (simp add: processRenewal_def Let_def)

lemma refs_cacheSchema:
  "\<forall>s\<in>set (schemas st). take 6 (ref s) = ''30300:'' \<Longrightarrow>
   \<forall>s\<in>set (schemas (cacheSchema e st)). take 6 (ref s) = ''30300:''"
  by (auto simp: cacheSchema_def Let_def)

lemma refs_after_index:
  "\<forall>s\<in>set (schemas st). take 6 (ref s) = ''30300:'' \<Longrightarrow>
   \<forall>s\<in>set (schemas (after_index e st)). take 6 (ref s) = ''30300:''"
  using refs_cacheSchema [of st e]
  by (simp add: after_index_def Let_def schemas_processRevocation schemas_processRenewal)

lemma schemas_insert_stage: "schemas (insert_stage e st) = schemas st"
  by (simp add: insert_stage_def Let_def schemas_insert_event schemas_delete_parameterized
        schemas_delete_replaceable)

lemma refs_saveEvent:
  assumes "\<forall>s\<in>set (schemas st). take 6 (ref s) = ''30300:''"
  shows "\<forall>s\<in>set (schemas (snd (saveEvent st e))). take 6 (ref s) = ''30300:''"
proof (cases "if ev_kind e = CREDENTIAL_GRANT then indexCredential e (insert_stage e st)
              else Some (insert_stage e st)")
  case None
  then show ?thesis using assms by (simp add: saveEvent_def Let_def schemas_insert_stage)
next
  case (Some st4)
  then have "schemas st4 = schemas st"
    using schemas_indexCredential [of e "insert_stage e st" st4]
    by (auto simp: schemas_insert_stage split: if_splits)
  then show ?thesis
    using assms Some refs_after_index [of st4 e] by (simp add: saveEvent_def Let_def)
qed

lemma refs_saveEvents:
  "\<forall>s\<in>set (schemas st). take 6 (ref s) = ''30300:'' \<Longrightarrow>
   \<forall>s\<in>set (schemas (saveEvents st evs)). take 6 (ref s) = ''30300:''"
proof (induction evs arbitrary: st)
  case Nil
  then show ?case by (simp add: saveEvents_def)
next
  case (Cons e evs)
  have "saveEvents st (e # evs) = saveEvents (snd (saveEvent st e)) evs"
    by (simp add: saveEvents_def)
  then show ?case
    using Cons.IH [OF refs_saveEvent [OF Cons.prems]] by simp
qed

lemma address_schema: "address CREDENTIAL_SCHEMA pk d = ''30100:'' @ pk @ '':'' @ d"
  by (simp add: address_def CREDENTIAL_SCHEMA_def decimal.simps)

text \<open>
  Claim C2. A Schema Definition event has the configured kind
  \<open>EVENT_KINDS.CREDENTIAL_SCHEMA = 30100\<close>, and the claim expects its content in the cache
  under the address computed from that kind. The store files it under \<open>30300:<pk>:<d>\<close>
  instead: whatever events have been saved, the cache has no entry at an address
  \<open>30100:<pk>:<d>\<close>, and a grant whose \<open>a\<close> tag is that address does not resolve its schema.
\<close>

theorem C2_no_schema_at_configured_address:
  "getSchema (saveEvents empty_store evs) (address CREDENTIAL_SCHEMA pk d) = None \<and>
   verifier_getSchema JSON_parse (saveEvents empty_store evs)
     (address CREDENTIAL_SCHEMA pk d) = None"
proof -
  have "\<forall>s\<in>set (schemas (saveEvents empty_store evs)). take 6 (ref s) = ''30300:''"
    by (rule refs_saveEvents) (simp add: empty_store_def)
  then have "\<forall>s\<in>set (schemas (saveEvents empty_store evs)).
      ref s \<noteq> address CREDENTIAL_SCHEMA pk d"
    by (auto simp: address_schema)
  then have "getSchema (saveEvents empty_store evs) (address CREDENTIAL_SCHEMA pk d) = None"
    by (simp add: getSchema_def find_None_iff)
  then show ?thesis
    by (simp add: verifier_getSchema_def)
qed

theorem C2_no_schema_at_configured_address_witness:
  "getSchema (saveEvents empty_store [schemaEv]) (address CREDENTIAL_SCHEMA pkR ''s'') = None \<and>
   verifier_getSchema parse1 (saveEvents empty_store [schemaEv])
     (address CREDENTIAL_SCHEMA pkR ''s'') = None"
  using C2_no_schema_at_configured_address [of "[schemaEv]" pkR "''s''" parse1] by simp

text \<open>The schema event of the concrete store is accepted and filed under \<open>30300:\<close>.\<close>

lemma schema_filed_under_30300:
  "fst (saveEvent empty_store schemaEv) = True \<and> ev_kind schemaEv = CREDENTIAL_SCHEMA \<and>
   getTagValue schemaEv ''d'' = Some ''s'' \<and> ev_pubkey schemaEv = pkR \<and>
   map_option schema_content
     (getSchema (snd (saveEvent empty_store schemaEv)) (''30300:'' @ pkR @ '':s'')) =
     Some schema_text"
  by code_simp

section \<open>Chain references\<close>

text \<open>
  Claim C1. The walk compares the kind component of a chain reference with the literal
  \<open>30301\<close>, not with \<open>EVENT_KINDS.CREDENTIAL_GRANT = 30101\<close>: a chain reference that parses
  and whose kind is the configured credential-grant kind is rejected at step (b) with
  \<open>invalid chain reference\<close>, before any lookup.
\<close>

theorem C1_configured_kind_rejected:
  "parseATag chainRef = Some info \<Longrightarrow> at_kind info = CREDENTIAL_GRANT \<Longrightarrow> depth \<le> 5 \<Longrightarrow>
   verifyChain clock st ip cia cc ai chainRef sch rp now depth =
     (INVALID ''invalid chain reference'', [])"
  by (subst verifyChain.simps) (simp add: CREDENTIAL_GRANT_def)

theorem C1_configured_kind_rejected_witness:
  "parseATag (''30101:'' @ pkR @ '':dir1'') =
     Some \<lparr>at_kind = 30101, at_pubkey = pkR, at_dTag = ''dir1''\<rparr> \<and>
   at_kind \<lparr>at_kind = 30101, at_pubkey = pkR, at_dTag = ''dir1''\<rparr> = CREDENTIAL_GRANT \<and>
   (1::nat) \<le> 5 \<and>
   verifyChain 0 (saveEvents empty_store [schemaEv, grantD]) pkD (Some 10) ''instructor''
       [''director''] (''30101:'' @ pkR @ '':dir1'') schema1 pkR 100 1 =
     (INVALID ''invalid chain reference'', [])"
proof -
  have p: "parseATag (''30101:'' @ pkR @ '':dir1'') =
      Some \<lparr>at_kind = 30101, at_pubkey = pkR, at_dTag = ''dir1''\<rparr>"
    by code_simp
  have k: "at_kind \<lparr>at_kind = 30101, at_pubkey = pkR, at_dTag = ''dir1''\<rparr> = CREDENTIAL_GRANT"
    by (simp add: CREDENTIAL_GRANT_def)
  have d: "(1::nat) \<le> 5" by simp
  show ?thesis
    using p k d C1_configured_kind_rejected [OF p k d] by simp
qed

text \<open>
  The same grant verified against the same store: with the configured kind in its chain
  reference it is invalid, with \<open>30301\<close> it is valid at depth 1.
\<close>

lemma chain_kind_30101_versus_30301:
  "verify parse1 0 (saveEvents empty_store [schemaEv, grantD]) grantA_configured 100 =
     (INVALID ''invalid chain reference'', []) \<and>
   fst (verify parse1 0 (saveEvents empty_store [schemaEv, grantD]) grantA 100) = VALID 1"
  by code_simp

section \<open>Revocation, renewal and replacement in the store\<close>

text \<open>
  Claim C3. Once a revocation has set a grant's revoked flag, no later \<open>saveEvent\<close> should
  clear it. Saving the stored grant event again is accepted, runs \<open>indexCredential\<close> again,
  and its \<open>INSERT OR REPLACE\<close> writes the row anew with \<open>revoked = 0\<close>: the grant that
  verified as \<open>REVOKED\<close> verifies as \<open>VALID\<close>.
\<close>

theorem C3_resubmitted_grant_clears_revocation:
  "map_option revoked
     (getCredential (saveEvents empty_store [schemaEv, grantD, revocationM]) (ev_id grantD)) =
     Some 1 \<and>
   fst (verify parse1 0 (saveEvents empty_store [schemaEv, grantD, revocationM]) grantD 100) =
     REVOKED 20 ''misconduct'' \<and>
   fst (saveEvent (saveEvents empty_store [schemaEv, grantD, revocationM]) grantD) = True \<and>
   map_option revoked
     (getCredential (saveEvents empty_store [schemaEv, grantD, revocationM, grantD])
        (ev_id grantD)) = Some 0 \<and>
   fst (verify parse1 0 (saveEvents empty_store [schemaEv, grantD, revocationM, grantD])
          grantD 100) = VALID 0"
  by code_simp

text \<open>
  Claim C4. After any sequence of \<open>saveEvent\<close> calls at most one event per
  \<open>(kind, author)\<close> of a replaceable kind, and per \<open>(kind, author, d)\<close> of a
  parameterized-replaceable kind, should be retrievable. \<open>saveEvent\<close> deletes the stored
  events that are older than the incoming one but inserts the incoming one even when a
  newer one is stored: saving the newer event first and the older one second leaves both,
  and \<open>queryEvents\<close> returns both.
\<close>

theorem C4_older_event_saved_second_is_kept:
  "isReplaceable (ev_kind metaNew) \<and>
   queryEvents 0 (saveEvents empty_store [metaNew, metaOld])
     (no_filter\<lparr>f_kinds := [0], f_authors := [pkM]\<rparr>) = [metaNew, metaOld] \<and>
   isParameterizedReplaceable (ev_kind listNew) \<and>
   queryEvents 0 (saveEvents empty_store [listNew, listOld])
     (no_filter\<lparr>f_kinds := [30000], f_authors := [pkM], f_d := [''x'']\<rparr>) =
     [listNew, listOld]"
  by code_simp

text \<open>Saved in the other order, the older event is deleted and one event is retrievable.\<close>

lemma newer_event_saved_second_replaces:
  "queryEvents 0 (saveEvents empty_store [metaOld, metaNew])
     (no_filter\<lparr>f_kinds := [0], f_authors := [pkM]\<rparr>) = [metaNew] \<and>
   queryEvents 0 (saveEvents empty_store [listOld, listNew])
     (no_filter\<lparr>f_kinds := [30000], f_authors := [pkM], f_d := [''x'']\<rparr>) = [listNew]"
  by code_simp

text \<open>
  Claim C7. \<open>verify\<close> should report \<open>REVOKED\<close> only for a revocation authored by the
  grant's issuer, an upstream issuer or the schema root. Neither \<open>processRevocation\<close> nor
  \<open>verify\<close> looks at the revocation's author: a revocation signed by the outsider \<open>pkM\<close>
  against a grant the root issued (so that root and issuer are both \<open>pkR\<close>, and there is no
  upstream issuer) makes \<open>verify\<close> return \<open>REVOKED\<close>.
\<close>

theorem C7_outsider_revocation_reported:
  "ev_pubkey revocationM = pkM \<and> pkM \<noteq> pkR \<and> ev_pubkey grantD = pkR \<and>
   map_option at_pubkey (parseATag (the (getTagValue grantD ''a''))) = Some pkR \<and>
   getTagValue grantD ''chain'' = None \<and>
   fst (verify parse1 0 (saveEvents empty_store [schemaEv, grantD]) grantD 100) = VALID 0 \<and>
   verify parse1 0 (saveEvents empty_store [schemaEv, grantD, revocationM]) grantD 100 =
     (REVOKED 20 ''misconduct'', [])"
  by code_simp

text \<open>
  Claim C8. A renewal should not take effect on a revoked grant, nor on a grant whose
  class has \<open>expiry.renewable = false\<close>. The first holds (\<open>processRenewal\<close> updates only rows
  with \<open>revoked = 0\<close>). The second does not: nothing reads \<open>renewable\<close> when a renewal is
  processed or when \<open>verify\<close> computes the effective expiry. A grant of the non-renewable
  class \<open>director\<close>, expired at 100, is \<open>EXPIRED\<close> at time 500; after a renewal to 10000
  the index holds 10000 and the grant is \<open>VALID\<close>.
\<close>

theorem C8_non_renewable_class_is_renewed:
  "map_option cls_renewable (map_of (classes schema1) ''director'') = Some False \<and>
   getTagValue grantD_past ''class'' = Some ''director'' \<and>
   verify parse1 0 (saveEvents empty_store [schemaEv, grantD_past]) grantD_past 500 =
     (EXPIRED 100, []) \<and>
   map_option cred_expires_at
     (getCredential (saveEvents empty_store [schemaEv, grantD_past, renewalR])
        (ev_id grantD_past)) = Some (Some 10000) \<and>
   verify parse1 0 (saveEvents empty_store [schemaEv, grantD_past, renewalR]) grantD_past 500 =
     (VALID 0, [])"
  by code_simp

section \<open>Renewal of a revoked grant\<close>

text \<open>
  A renewal does not reach a revoked grant: \<open>processRenewal\<close> updates only rows with
  \<open>revoked = 0\<close>, so the row of a revoked grant, its expiry included, stays as it is.
\<close>

lemma processRenewal_keeps_revoked:
  "getCredential st i = Some row \<Longrightarrow> revoked row \<noteq> 0 \<Longrightarrow>
   getCredential (processRenewal e st) i = Some row"
proof -
  have "\<And>f cs. (\<And>c. revoked c \<noteq> 0 \<Longrightarrow> f c = c) \<Longrightarrow> (\<And>c. event_id (f c) = event_id c) \<Longrightarrow>
      find (\<lambda>c. event_id c = i) cs = Some row \<Longrightarrow> revoked row \<noteq> 0 \<Longrightarrow>
      find (\<lambda>c. event_id c = i) (map f cs) = Some row"
    subgoal for f cs by (induction cs) (auto split: if_splits)
    done
  then show "getCredential st i = Some row \<Longrightarrow> revoked row \<noteq> 0 \<Longrightarrow>
      getCredential (processRenewal e st) i = Some row"
    by (simp add: getCredential_def processRenewal_def Let_def)
qed

section \<open>Authority at issuance\<close>

text \<open>
  Claim C5. On the chain of a grant that verifies as \<open>VALID\<close>, every upstream grant should
  have been issued no later than the grant below it and, when its \<open>expires\<close> tag is a number,
  should expire no earlier than that grant's issuance. The walk makes both comparisons on
  what \<open>parseInt\<close> returns, after \<open>|| null\<close> on the expiry: an upstream \<open>expires\<close> of \<open>0\<close>
  becomes \<open>null\<close> and is not compared, and a comparison with \<open>NaN\<close> is false. So an
  upstream grant that expired at time 0 authorises a grant issued at time 10, and a grant
  whose \<open>issued\<close> tag is not a number passes as issued within its issuer's term; both
  verify as \<open>VALID\<close> at depth 1.
\<close>

theorem C5_expired_upstream_verifies:
  "tag_int grantD_zero ''issued'' = Some 5 \<and> tag_int grantD_zero ''expires'' = Some 0 \<and>
   tag_int grantA_zero ''issued'' = Some 10 \<and>
   verify parse1 0 (saveEvents empty_store [schemaEv, grantD_zero]) grantA_zero 100 =
     (VALID 1, [\<lparr>lk_pubkey = pkR, lk_dTag = ''dir0'', lk_child_issued = Some 10,
                  lk_found = Some grantD_zero\<rparr>]) \<and>
   \<not> claimed_authority_at_issuance
       \<lparr>lk_pubkey = pkR, lk_dTag = ''dir0'', lk_child_issued = Some 10,
        lk_found = Some grantD_zero\<rparr> \<and>
   tag_int grantA_nan ''issued'' = None \<and>
   verify parse1 0 (saveEvents empty_store [schemaEv, grantD]) grantA_nan 100 =
     (VALID 1, [\<lparr>lk_pubkey = pkR, lk_dTag = ''dir1'', lk_child_issued = None,
                  lk_found = Some grantD\<rparr>]) \<and>
   \<not> claimed_authority_at_issuance
       \<lparr>lk_pubkey = pkR, lk_dTag = ''dir1'', lk_child_issued = None,
        lk_found = Some grantD\<rparr>"
  by code_simp

text \<open>
  With an upstream expiry of 100 instead of 0 the same comparison is made and the
  downstream grant, issued at 200, is refused.
\<close>

lemma expired_upstream_refused:
  "verify parse1 0 (saveEvents empty_store [schemaEv, grantD_past]) grantA_late 50 =
     (INVALID ''issuer credential was expired at issuance time'',
      [\<lparr>lk_pubkey = pkR, lk_dTag = ''dir1'', lk_child_issued = Some 200,
        lk_found = Some grantD_past\<rparr>])"
  by code_simp

section \<open>The validator and the shape of tags\<close>

text \<open>
  Claim C9. An event whose \<open>tags\<close> field is not an array of arrays should be invalid, its
  id and signature notwithstanding. \<open>validateEvent\<close> tests \<open>Array.isArray(event.tags)\<close> and
  never looks at the elements: an event whose other fields have the required types and
  lengths, whose id is the hash of its canonical form and whose signature verifies is valid
  whatever its \<open>tags\<close> array holds.
\<close>

theorem C9_array_elements_not_checked:
  "r_id event = JStr i \<Longrightarrow> length i = 64 \<Longrightarrow> r_pubkey event = JStr pk \<Longrightarrow> length pk = 64 \<Longrightarrow>
   r_sig event = JStr sg \<Longrightarrow> length sg = 128 \<Longrightarrow> r_created_at event = JNum t \<Longrightarrow> 0 \<le> t \<Longrightarrow>
   r_kind event = JNum k \<Longrightarrow> 0 \<le> k \<Longrightarrow> r_tags event = JArr elems \<Longrightarrow>
   r_content event = JStr c \<Longrightarrow> computeEventId hash_hex event = i \<Longrightarrow>
   verifySignature schnorr_verify event \<Longrightarrow>
   validateEvent hash_hex schnorr_verify event = Valid"
  by (auto simp: validateEvent_def js_not_def is_string_def is_number_def isArray_def
        str_of_def num_of_def)

theorem C9_array_elements_not_checked_witness:
  "r_id flatTags = JStr (replicate 64 (CHR ''0'')) \<and> length (replicate 64 (CHR ''0'')) = 64 \<and>
   r_pubkey flatTags = JStr pkM \<and> length pkM = 64 \<and>
   r_sig flatTags = JStr (replicate 128 (CHR ''1'')) \<and>
   length (replicate 128 (CHR ''1'')) = 128 \<and>
   r_created_at flatTags = JNum 7 \<and> (0::rat) \<le> 7 \<and> r_kind flatTags = JNum 1 \<and>
   (0::rat) \<le> 1 \<and> r_tags flatTags = JArr [JStr ''x''] \<and>
   r_content flatTags = JStr ''hello'' \<and>
   computeEventId hash_zeros flatTags = replicate 64 (CHR ''0'') \<and>
   verifySignature verify_accepting flatTags \<and>
   \<not> array_of_arrays (r_tags flatTags) \<and>
   validateEvent hash_zeros verify_accepting flatTags = Valid"
proof -
  have f: "r_id flatTags = JStr (replicate 64 (CHR ''0''))"
      "length (replicate 64 (CHR ''0'')) = 64"
      "r_pubkey flatTags = JStr pkM" "length pkM = 64"
      "r_sig flatTags = JStr (replicate 128 (CHR ''1''))"
      "length (replicate 128 (CHR ''1'')) = 128"
      "r_created_at flatTags = JNum 7" "(0::rat) \<le> 7"
      "r_kind flatTags = JNum 1" "(0::rat) \<le> 1"
      "r_tags flatTags = JArr [JStr ''x'']"
      "r_content flatTags = JStr ''hello''"
      "computeEventId hash_zeros flatTags = replicate 64 (CHR ''0'')"
      "verifySignature verify_accepting flatTags"
    by (simp_all add: flatTags_def pkM_def computeEventId_def hash_zeros_def
          verifySignature_def verify_accepting_def)
  have n: "\<not> array_of_arrays (r_tags flatTags)"
    by (simp add: flatTags_def array_of_arrays_def isArray_def)
  show ?thesis
    using f n C9_array_elements_not_checked [OF f] by simp
qed

text \<open>
  The one test on \<open>tags\<close>: when the five field checks before it pass and \<open>tags\<close> is not an
  array, the verdict is \<open>invalid tags\<close>; and whatever the other fields are, an event whose
  \<open>tags\<close> is not an array is invalid with some reason.
\<close>

lemma validateEvent_tags_not_array:
  "\<not> isArray (r_tags event) \<Longrightarrow>
   (\<exists>reason. validateEvent hash_hex schnorr_verify event = Invalid reason) \<and>
   (r_id event = JStr i \<and> length i = 64 \<and> r_pubkey event = JStr pk \<and> length pk = 64 \<and>
    r_sig event = JStr sg \<and> length sg = 128 \<and> r_created_at event = JNum t \<and> 0 \<le> t \<and>
    r_kind event = JNum k \<and> 0 \<le> k \<longrightarrow>
      validateEvent hash_hex schnorr_verify event = Invalid ''invalid tags'')"
  by (auto simp: validateEvent_def js_not_def is_string_def is_number_def isArray_def
        str_of_def num_of_def)

lemma validateEvent_no_tags_array:
  "validateEvent hash_zeros verify_accepting noTags = Invalid ''invalid tags''"
  by code_simp

section \<open>Expiry tags that give no number\<close>

lemma numeric_expiry_null:
  "parseInt s = None \<or> parseInt s = Some 0 \<Longrightarrow> numeric_expiry (Some s) = None"
  by (auto simp: numeric_expiry_def)

lemma find_replaced_row:
  "P r \<Longrightarrow> find P (filter (\<lambda>c. \<not> P c) xs @ [r]) = Some r"
  by (induction xs) simp_all

lemma indexCredential_row:
  assumes "indexCredential g st = Some st'"
    and "\<not> falsy (getTagValue g ''a'')" and "\<not> falsy (getTagValue g ''class'')"
    and "\<not> falsy (getTagValue g ''p'')" and "\<not> falsy (getTagValue g ''issued'')"
  shows "map_option cred_expires_at (getCredential st' (ev_id g)) =
           Some (numeric_expiry (getTagValue g ''expires''))"
proof -
  obtain issued where "parseInt (the (getTagValue g ''issued'')) = Some issued"
    using assms by (auto simp: indexCredential_def Let_def split: option.splits)
  then have "\<exists>r. cred_expires_at r = numeric_expiry (getTagValue g ''expires'') \<and>
      event_id r = ev_id g \<and>
      credentials st' = filter (\<lambda>c. \<not> event_id c = ev_id g) (credentials st) @ [r]"
    using assms by (auto simp: indexCredential_def Let_def)
  then obtain r where r: "cred_expires_at r = numeric_expiry (getTagValue g ''expires'')"
      "event_id r = ev_id g"
      "credentials st' = filter (\<lambda>c. \<not> event_id c = ev_id g) (credentials st) @ [r]"
    by blast
  have "find (\<lambda>c. event_id c = ev_id g)
          (filter (\<lambda>c. \<not> event_id c = ev_id g) (credentials st) @ [r]) = Some r"
    using r(2) by (rule find_replaced_row [of "\<lambda>c. event_id c = ev_id g"])
  then show ?thesis
    by (simp add: getCredential_def r)
qed

lemma verifyChain_not_expired_aux:
  "6 - depth = k \<Longrightarrow>
   fst (verifyChain clock st ip cia cc ai cr sch rp now depth) \<noteq> EXPIRED e"
proof (induction k arbitrary: ip cia cc ai cr depth)
  case 0
  then have "depth > 5" by simp
  then show ?case by (simp add: verifyChain_too_deep)
next
  case (Suc k)
  have IH: "\<And>ip cia cc ai cr.
      fst (verifyChain clock st ip cia cc ai cr sch rp now (Suc depth)) \<noteq> EXPIRED e"
    using Suc.prems(1) Suc.IH [of "Suc depth"] by simp
  show ?case
    unfolding verifyChain.simps [of clock st ip cia cc ai cr sch rp now depth]
    by (simp add: Let_def split_beta IH split: option.splits)
qed

lemma verify_not_expired:
  assumes "numeric_expiry (getTagValue g ''expires'') = None"
    and "\<forall>row. getCredential st (ev_id g) = Some row \<longrightarrow> cred_expires_at row = None"
  shows "fst (verify JSON_parse clock st g now) \<noteq> EXPIRED e"
proof -
  have vc: "\<And>ip cia cc ai cr sch rp.
      fst (verifyChain clock st ip cia cc ai cr sch rp now (Suc 0)) \<noteq> EXPIRED e"
    by (rule verifyChain_not_expired_aux) simp
  show ?thesis
    using assms by (simp add: verify_def Let_def vc split: option.splits)
qed

lemma expiry_compared_found:
  "numeric_expiry (getTagValue U ''expires'') \<noteq> None \<Longrightarrow>
   expiry_compared \<lparr>lk_pubkey = a, lk_dTag = b, lk_child_issued = c, lk_found = Some U\<rparr>"
  by (simp add: expiry_compared_def)

lemma verifyChain_expired_at_issuance_aux:
  "6 - depth = k \<Longrightarrow>
   fst (verifyChain clock st ip cia cc ai cr sch rp now depth) =
     INVALID ''issuer credential was expired at issuance time'' \<longrightarrow>
   snd (verifyChain clock st ip cia cc ai cr sch rp now depth) \<noteq> [] \<and>
   expiry_compared (last (snd (verifyChain clock st ip cia cc ai cr sch rp now depth)))"
proof (induction k arbitrary: ip cia cc ai cr depth)
  case 0
  then have "depth > 5" by simp
  then show ?case by (simp add: verifyChain_too_deep)
next
  case (Suc k)
  have IH1: "\<And>ip cia cc ai cr.
      fst (verifyChain clock st ip cia cc ai cr sch rp now (Suc depth)) =
        INVALID ''issuer credential was expired at issuance time'' \<Longrightarrow>
      snd (verifyChain clock st ip cia cc ai cr sch rp now (Suc depth)) \<noteq> []"
    using Suc.prems(1) Suc.IH [of "Suc depth"] by simp
  have IH2: "\<And>ip cia cc ai cr.
      fst (verifyChain clock st ip cia cc ai cr sch rp now (Suc depth)) =
        INVALID ''issuer credential was expired at issuance time'' \<Longrightarrow>
      expiry_compared (last (snd (verifyChain clock st ip cia cc ai cr sch rp now (Suc depth))))"
    using Suc.prems(1) Suc.IH [of "Suc depth"] by simp
  show ?case
    unfolding verifyChain.simps [of clock st ip cia cc ai cr sch rp now depth]
    by (simp add: Let_def split_beta IH1 IH2 expiry_compared_found split: option.splits)
qed

lemma verifyChain_expired_at_issuance:
  "fst (verifyChain clock st ip cia cc ai cr sch rp now depth) =
     INVALID ''issuer credential was expired at issuance time'' \<Longrightarrow>
   snd (verifyChain clock st ip cia cc ai cr sch rp now depth) \<noteq> [] \<and>
   expiry_compared (last (snd (verifyChain clock st ip cia cc ai cr sch rp now depth)))"
  using verifyChain_expired_at_issuance_aux [of depth "6 - depth"] by simp

text \<open>
  The walk at a grant whose expiry expression is \<open>null\<close>. When the lookup of the chain
  reference finds such a grant and the walk nevertheless answers
  \<open>issuer credential was expired at issuance time\<close>, the answer is the one the walk gives
  further up, from this grant's own chain reference: the lookup of this grant is followed in
  the log by the lookups of that walk.
\<close>

lemma verifyChain_null_expiry_passes:
  assumes "numeric_expiry (getTagValue g ''expires'') = None"
    and "parseATag cr = Some info" and "at_kind info = 30301" and "depth \<le> 5"
    and "findCredentialEvent clock st (at_pubkey info) (at_dTag info) = Some g"
  shows "fst (verifyChain clock st ip cia cc ai cr sch rp now depth) =
           INVALID ''issuer credential was expired at issuance time'' \<longrightarrow>
         (\<exists>cls. map_of (classes sch) (the (getTagValue g ''class'')) = Some cls \<and>
            fst (verifyChain clock st (ev_pubkey g) (parseInt (the (getTagValue g ''issued'')))
                   (the (getTagValue g ''class'')) (cls_issued_by cls)
                   (the (getTagValue g ''chain'')) sch rp now (Suc depth)) =
              INVALID ''issuer credential was expired at issuance time'' \<and>
            snd (verifyChain clock st ip cia cc ai cr sch rp now depth) =
              \<lparr>lk_pubkey = at_pubkey info, lk_dTag = at_dTag info, lk_child_issued = cia,
               lk_found = Some g\<rparr> #
              snd (verifyChain clock st (ev_pubkey g) (parseInt (the (getTagValue g ''issued'')))
                     (the (getTagValue g ''class'')) (cls_issued_by cls)
                     (the (getTagValue g ''chain'')) sch rp now (Suc depth)))"
  unfolding verifyChain.simps [of clock st ip cia cc ai cr sch rp now depth]
  using assms by (simp add: Let_def split_beta split: option.splits)

text \<open>
  Claim C10. For a grant whose \<open>expires\<close> tag is present and is \<open>0\<close> or does not parse as a
  nonzero integer: the expiry expression of the verifier and of the credential index gives
  \<open>null\<close>; the row the index writes for the grant has a null expiry; \<open>verify\<close> does not
  return \<open>EXPIRED\<close> for it as long as the indexed expiry is null (no renewal has set it);
  and when the walk finds the grant upstream, the expired-at-issuance check is skipped: the
  walk does not stop at this grant with \<open>issuer credential was expired at issuance time\<close>,
  and if that is its answer, it is the answer of the walk continued from this grant's own
  chain reference, whose lookups follow this grant's in the log. In any walk that gives this
  answer, the last grant read, whose check gave it, is not this grant.
\<close>

theorem C10_zero_or_unparsable_expiry_is_perpetual:
  assumes "getTagValue g ''expires'' = Some s"
    and "parseInt s = None \<or> parseInt s = Some 0"
  shows "numeric_expiry (getTagValue g ''expires'') = None \<and>
    (indexCredential g st0 = Some st1 \<and> \<not> falsy (getTagValue g ''a'') \<and>
     \<not> falsy (getTagValue g ''class'') \<and> \<not> falsy (getTagValue g ''p'') \<and>
     \<not> falsy (getTagValue g ''issued'') \<longrightarrow>
       map_option cred_expires_at (getCredential st1 (ev_id g)) = Some None) \<and>
    ((\<forall>row. getCredential st (ev_id g) = Some row \<longrightarrow> cred_expires_at row = None) \<longrightarrow>
       fst (verify JSON_parse clock st g now) \<noteq> EXPIRED e) \<and>
    (parseATag cr = Some info \<and> at_kind info = 30301 \<and> depth \<le> 5 \<and>
     findCredentialEvent clock' st' (at_pubkey info) (at_dTag info) = Some g \<longrightarrow>
       verifyChain clock' st' ip cia cc ai cr sch rp now' depth \<noteq>
         (INVALID ''issuer credential was expired at issuance time'',
          [\<lparr>lk_pubkey = at_pubkey info, lk_dTag = at_dTag info, lk_child_issued = cia,
            lk_found = Some g\<rparr>]) \<and>
       (fst (verifyChain clock' st' ip cia cc ai cr sch rp now' depth) =
          INVALID ''issuer credential was expired at issuance time'' \<longrightarrow>
        (\<exists>cls. map_of (classes sch) (the (getTagValue g ''class'')) = Some cls \<and>
           fst (verifyChain clock' st' (ev_pubkey g) (parseInt (the (getTagValue g ''issued'')))
                  (the (getTagValue g ''class'')) (cls_issued_by cls)
                  (the (getTagValue g ''chain'')) sch rp now' (Suc depth)) =
             INVALID ''issuer credential was expired at issuance time'' \<and>
           snd (verifyChain clock' st' ip cia cc ai cr sch rp now' depth) =
             \<lparr>lk_pubkey = at_pubkey info, lk_dTag = at_dTag info, lk_child_issued = cia,
              lk_found = Some g\<rparr> #
             snd (verifyChain clock' st' (ev_pubkey g)
                    (parseInt (the (getTagValue g ''issued''))) (the (getTagValue g ''class''))
                    (cls_issued_by cls) (the (getTagValue g ''chain'')) sch rp now'
                    (Suc depth))))) \<and>
    (fst (verifyChain clock' st' ip cia cc ai cr sch rp now' depth) =
       INVALID ''issuer credential was expired at issuance time'' \<longrightarrow>
     snd (verifyChain clock' st' ip cia cc ai cr sch rp now' depth) \<noteq> [] \<and>
     lk_found (last (snd (verifyChain clock' st' ip cia cc ai cr sch rp now' depth))) \<noteq> Some g)"
proof -
  have n: "numeric_expiry (getTagValue g ''expires'') = None"
    using assms by (simp add: numeric_expiry_null)
  have i: "indexCredential g st0 = Some st1 \<and> \<not> falsy (getTagValue g ''a'') \<and>
     \<not> falsy (getTagValue g ''class'') \<and> \<not> falsy (getTagValue g ''p'') \<and>
     \<not> falsy (getTagValue g ''issued'') \<longrightarrow>
       map_option cred_expires_at (getCredential st1 (ev_id g)) = Some None"
    using indexCredential_row [of g st0 st1] n by simp
  have v: "(\<forall>row. getCredential st (ev_id g) = Some row \<longrightarrow> cred_expires_at row = None) \<longrightarrow>
       fst (verify JSON_parse clock st g now) \<noteq> EXPIRED e"
    using verify_not_expired [OF n] by blast
  have l: "fst (verifyChain clock' st' ip cia cc ai cr sch rp now' depth) =
       INVALID ''issuer credential was expired at issuance time'' \<longrightarrow>
     snd (verifyChain clock' st' ip cia cc ai cr sch rp now' depth) \<noteq> [] \<and>
     lk_found (last (snd (verifyChain clock' st' ip cia cc ai cr sch rp now' depth))) \<noteq> Some g"
    using verifyChain_expired_at_issuance [of clock' st' ip cia cc ai cr sch rp now' depth] n
    by (auto simp: expiry_compared_def)
  have c: "parseATag cr = Some info \<and> at_kind info = 30301 \<and> depth \<le> 5 \<and>
     findCredentialEvent clock' st' (at_pubkey info) (at_dTag info) = Some g \<longrightarrow>
       verifyChain clock' st' ip cia cc ai cr sch rp now' depth \<noteq>
         (INVALID ''issuer credential was expired at issuance time'',
          [\<lparr>lk_pubkey = at_pubkey info, lk_dTag = at_dTag info, lk_child_issued = cia,
            lk_found = Some g\<rparr>]) \<and>
       (fst (verifyChain clock' st' ip cia cc ai cr sch rp now' depth) =
          INVALID ''issuer credential was expired at issuance time'' \<longrightarrow>
        (\<exists>cls. map_of (classes sch) (the (getTagValue g ''class'')) = Some cls \<and>
           fst (verifyChain clock' st' (ev_pubkey g) (parseInt (the (getTagValue g ''issued'')))
                  (the (getTagValue g ''class'')) (cls_issued_by cls)
                  (the (getTagValue g ''chain'')) sch rp now' (Suc depth)) =
             INVALID ''issuer credential was expired at issuance time'' \<and>
           snd (verifyChain clock' st' ip cia cc ai cr sch rp now' depth) =
             \<lparr>lk_pubkey = at_pubkey info, lk_dTag = at_dTag info, lk_child_issued = cia,
              lk_found = Some g\<rparr> #
             snd (verifyChain clock' st' (ev_pubkey g)
                    (parseInt (the (getTagValue g ''issued''))) (the (getTagValue g ''class''))
                    (cls_issued_by cls) (the (getTagValue g ''chain'')) sch rp now'
                    (Suc depth))))"
  proof (intro impI conjI)
    assume a: "parseATag cr = Some info \<and> at_kind info = 30301 \<and> depth \<le> 5 \<and>
      findCredentialEvent clock' st' (at_pubkey info) (at_dTag info) = Some g"
    note p = verifyChain_null_expiry_passes [OF n, of cr info depth clock' st' ip cia cc ai sch
        rp now']
    show "fst (verifyChain clock' st' ip cia cc ai cr sch rp now' depth) =
          INVALID ''issuer credential was expired at issuance time'' \<Longrightarrow>
        \<exists>cls. map_of (classes sch) (the (getTagValue g ''class'')) = Some cls \<and>
           fst (verifyChain clock' st' (ev_pubkey g) (parseInt (the (getTagValue g ''issued'')))
                  (the (getTagValue g ''class'')) (cls_issued_by cls)
                  (the (getTagValue g ''chain'')) sch rp now' (Suc depth)) =
             INVALID ''issuer credential was expired at issuance time'' \<and>
           snd (verifyChain clock' st' ip cia cc ai cr sch rp now' depth) =
             \<lparr>lk_pubkey = at_pubkey info, lk_dTag = at_dTag info, lk_child_issued = cia,
              lk_found = Some g\<rparr> #
             snd (verifyChain clock' st' (ev_pubkey g)
                    (parseInt (the (getTagValue g ''issued''))) (the (getTagValue g ''class''))
                    (cls_issued_by cls) (the (getTagValue g ''chain'')) sch rp now'
                    (Suc depth))"
      using p a by blast
    show "verifyChain clock' st' ip cia cc ai cr sch rp now' depth \<noteq>
         (INVALID ''issuer credential was expired at issuance time'',
          [\<lparr>lk_pubkey = at_pubkey info, lk_dTag = at_dTag info, lk_child_issued = cia,
            lk_found = Some g\<rparr>])"
    proof
      assume eq: "verifyChain clock' st' ip cia cc ai cr sch rp now' depth =
         (INVALID ''issuer credential was expired at issuance time'',
          [\<lparr>lk_pubkey = at_pubkey info, lk_dTag = at_dTag info, lk_child_issued = cia,
            lk_found = Some g\<rparr>])"
      then have "lk_found (last (snd (verifyChain clock' st' ip cia cc ai cr sch rp now' depth)))
          = Some g"
        by simp
      moreover have "fst (verifyChain clock' st' ip cia cc ai cr sch rp now' depth) =
          INVALID ''issuer credential was expired at issuance time''"
        using eq by simp
      ultimately show False using l by blast
    qed
  qed
  show ?thesis using n i v c l by blast
qed

theorem C10_zero_or_unparsable_expiry_is_perpetual_witness:
  "getTagValue peerZero ''expires'' = Some ''0'' \<and> parseInt ''0'' = Some 0 \<and>
   numeric_expiry (getTagValue peerZero ''expires'') = None \<and>
   indexCredential peerZero (insert_stage peerZero (saveEvents empty_store [schemaEv, peerTop])) =
     Some (saveEvents empty_store [schemaEv, peerTop, peerZero]) \<and>
   map_option cred_expires_at
     (getCredential (saveEvents empty_store [schemaEv, peerTop, peerZero]) (ev_id peerZero)) =
     Some None \<and>
   fst (verify parse1 0 (saveEvents empty_store [schemaEv, peerTop, peerZero]) peerZero
          1000000) \<noteq> EXPIRED 0 \<and>
   parseATag (''30301:'' @ pkD @ '':mid'') =
     Some \<lparr>at_kind = 30301, at_pubkey = pkD, at_dTag = ''mid''\<rparr> \<and>
   (1::nat) \<le> 5 \<and>
   findCredentialEvent 0 (saveEvents empty_store [schemaEv, peerTop, peerZero]) pkD ''mid'' =
     Some peerZero \<and>
   tag_int peerZero ''expires'' = Some 0 \<and>
   verifyChain 0 (saveEvents empty_store [schemaEv, peerTop, peerZero]) pkA (Some 300) ''peer''
       [''peer''] (''30301:'' @ pkD @ '':mid'') schema1 pkR 50 1 =
     (INVALID ''issuer credential was expired at issuance time'',
      [\<lparr>lk_pubkey = pkD, lk_dTag = ''mid'', lk_child_issued = Some 300,
        lk_found = Some peerZero\<rparr>,
       \<lparr>lk_pubkey = pkM, lk_dTag = ''top'', lk_child_issued = Some 200,
        lk_found = Some peerTop\<rparr>]) \<and>
   verifyChain 0 (saveEvents empty_store [schemaEv, peerTop, peerZero]) pkA (Some 300) ''peer''
       [''peer''] (''30301:'' @ pkD @ '':mid'') schema1 pkR 50 1 \<noteq>
     (INVALID ''issuer credential was expired at issuance time'',
      [\<lparr>lk_pubkey = pkD, lk_dTag = ''mid'', lk_child_issued = Some 300,
        lk_found = Some peerZero\<rparr>]) \<and>
   lk_found (last (snd (verifyChain 0 (saveEvents empty_store [schemaEv, peerTop, peerZero])
       pkA (Some 300) ''peer'' [''peer''] (''30301:'' @ pkD @ '':mid'') schema1 pkR 50 1))) \<noteq>
     Some peerZero"
proof -
  have w1: "getTagValue peerZero ''expires'' = Some ''0''" by code_simp
  have w2: "parseInt ''0'' = Some 0" by code_simp
  have w3: "indexCredential peerZero
        (insert_stage peerZero (saveEvents empty_store [schemaEv, peerTop])) =
      Some (saveEvents empty_store [schemaEv, peerTop, peerZero])"
    by code_simp
  have w4: "getCredential (saveEvents empty_store [schemaEv, peerTop, peerZero])
        (ev_id peerZero) =
      Some \<lparr>event_id = ''p1'', schema_ref = sref, class_id = ''peer'', recipient = pkA,
             issuer = pkD, issued_at = 200, cred_expires_at = None,
             chain_ref = Some (''30301:'' @ pkM @ '':top''), revoked = 0,
             revoked_at = None, revoke_reason = None\<rparr>"
    by code_simp
  have w5: "\<not> falsy (getTagValue peerZero ''a'') \<and> \<not> falsy (getTagValue peerZero ''class'') \<and>
      \<not> falsy (getTagValue peerZero ''p'') \<and> \<not> falsy (getTagValue peerZero ''issued'')"
    by code_simp
  have w6: "parseATag (''30301:'' @ pkD @ '':mid'') =
      Some \<lparr>at_kind = 30301, at_pubkey = pkD, at_dTag = ''mid''\<rparr>"
    by code_simp
  have w7: "findCredentialEvent 0 (saveEvents empty_store [schemaEv, peerTop, peerZero]) pkD
        ''mid'' = Some peerZero"
    by code_simp
  have w8: "verifyChain 0 (saveEvents empty_store [schemaEv, peerTop, peerZero]) pkA (Some 300)
        ''peer'' [''peer''] (''30301:'' @ pkD @ '':mid'') schema1 pkR 50 1 =
      (INVALID ''issuer credential was expired at issuance time'',
       [\<lparr>lk_pubkey = pkD, lk_dTag = ''mid'', lk_child_issued = Some 300,
         lk_found = Some peerZero\<rparr>,
        \<lparr>lk_pubkey = pkM, lk_dTag = ''top'', lk_child_issued = Some 200,
         lk_found = Some peerTop\<rparr>])"
    by code_simp
  have w9: "tag_int peerZero ''expires'' = Some 0" by code_simp
  have w10: "peerTop \<noteq> peerZero" by code_simp
  note T = C10_zero_or_unparsable_expiry_is_perpetual [OF w1 disjI2 [OF w2],
      where ?st0.0 = "insert_stage peerZero (saveEvents empty_store [schemaEv, peerTop])"
        and ?st1.0 = "saveEvents empty_store [schemaEv, peerTop, peerZero]"
        and st = "saveEvents empty_store [schemaEv, peerTop, peerZero]"
        and JSON_parse = parse1 and clock = 0 and now = 1000000 and e = 0
        and clock' = 0 and st' = "saveEvents empty_store [schemaEv, peerTop, peerZero]"
        and ip = pkA and cia = "Some 300" and cc = "''peer''" and ai = "[''peer'']"
        and cr = "''30301:'' @ pkD @ '':mid''"
        and info = "\<lparr>at_kind = 30301, at_pubkey = pkD, at_dTag = ''mid''\<rparr>"
        and sch = schema1 and rp = pkR and now' = 50 and depth = 1]
  show ?thesis
    using T w1 w2 w3 w4 w5 w6 w7 w8 w9 w10 by simp
qed

section \<open>Number values\<close>

text \<open>
  Below \<open>2^53\<close> \<open>parseInt\<close> returns the integer it reads; above, the nearest double, the
  even one on a tie.
\<close>

lemma parseInt_number_values:
  "parseInt ''9007199254740991'' = Some 9007199254740991 \<and>
   parseInt ''9007199254740992'' = Some 9007199254740992 \<and>
   parseInt ''9007199254740993'' = Some 9007199254740992 \<and>
   parseInt ''9007199254740995'' = Some 9007199254740996 \<and>
   parseInt '' -12abc'' = Some (- 12) \<and> parseInt ''soon'' = None"
  by code_simp

end
